theory Spec2Isabelle
  imports Complex_Main "HOL-Library.Sublist" "HOL-Library.AList"
begin

section \<open>Python primitives used by the services\<close>

text \<open>
  Strings are lists of 8-bit characters; \<open>str.lower\<close> is modelled on the ASCII letters
  (the keyword tables of the services are ASCII).  Python floats are idealised as exact
  rationals.  An exception is the message it carries.
\<close>

type_synonym error = string

definition lower_char :: "char \<Rightarrow> char" where
  "lower_char c =
     (let n = (of_char c :: nat) in if 65 \<le> n \<and> n \<le> 90 then char_of (n + 32) else c)"

definition lower :: "string \<Rightarrow> string" where
  "lower s = map lower_char s"

text \<open>\<open>k in s\<close> on strings: \<open>k\<close> occurs as a contiguous substring of \<open>s\<close>.\<close>

fun py_in :: "string \<Rightarrow> string \<Rightarrow> bool" where
  "py_in k [] = (k = [])"
| "py_in k (c # s) = (prefix k (c # s) \<or> py_in k s)"

definition digit_char :: "nat \<Rightarrow> char" where
  "digit_char d = char_of (48 + d)"

text \<open>\<open>str(n)\<close> for a non-negative and for an arbitrary integer.\<close>

fun str_nat :: "nat \<Rightarrow> string" where
  "str_nat n = (if n < 10 then [digit_char n] else str_nat (n div 10) @ [digit_char (n mod 10)])"

declare str_nat.simps [simp del]

definition str_int :: "int \<Rightarrow> string" where
  "str_int i = (if i < 0 then CHR ''-'' # str_nat (nat (- i)) else str_nat (nat i))"

text \<open>\<open>round(x, 2)\<close>: to the nearest multiple of 1/100, a tie going to the even one.\<close>

definition py_round2 :: "rat \<Rightarrow> rat" where
  "py_round2 x =
     (let y = x * 100; f = \<lfloor>y\<rfloor>; d = y - of_int f;
          n = (if d < 1 / 2 then f else if 1 / 2 < d then f + 1
               else if even f then f else f + 1)
      in of_int n / 100)"

section \<open>Categorisation (document\_processor.py, qa\_service.py)\<close>

definition document_categories :: "(string \<times> string list) list" where
  "document_categories =
    [(''benefits'', [''benefit'', ''insurance'', ''health'', ''dental'', ''vision'', ''401k'', ''retirement'']),
     (''leave-policies'', [''leave'', ''vacation'', ''pto'', ''sick'', ''maternity'', ''paternity'', ''fmla'']),
     (''work-policies'', [''remote'', ''work from home'', ''wfh'', ''flexible'', ''schedule'', ''attendance'']),
     (''performance'', [''performance'', ''review'', ''evaluation'', ''appraisal'', ''feedback'', ''goals'']),
     (''conduct'', [''conduct'', ''behavior'', ''harassment'', ''discrimination'', ''ethics'', ''compliance'']),
     (''compensation'', [''salary'', ''wage'', ''pay'', ''compensation'', ''bonus'', ''raise'', ''promotion''])]"

definition query_categories :: "(string \<times> string list) list" where
  "query_categories =
    [(''benefits'', [''benefit'', ''insurance'', ''health'', ''dental'', ''vision'', ''401k'', ''retirement'']),
     (''leave-policies'', [''leave'', ''vacation'', ''pto'', ''sick'', ''maternity'', ''paternity'', ''time off'']),
     (''work-policies'', [''remote'', ''work from home'', ''wfh'', ''flexible'', ''schedule'', ''attendance'']),
     (''performance'', [''performance'', ''review'', ''evaluation'', ''appraisal'', ''feedback'', ''goals'']),
     (''conduct'', [''conduct'', ''behavior'', ''harassment'', ''discrimination'', ''ethics'', ''report'']),
     (''compensation'', [''salary'', ''wage'', ''pay'', ''compensation'', ''bonus'', ''raise'', ''promotion''])]"

text \<open>The first loop of \<open>_categorize_document\<close>: the filename check, with its early return.\<close>

fun check_filename :: "string \<Rightarrow> (string \<times> string list) list \<Rightarrow> string option" where
  "check_filename filename_lower [] = None"
| "check_filename filename_lower ((category, keywords) # rest) =
     (if list_ex (\<lambda>keyword. py_in keyword filename_lower) keywords then Some category
      else check_filename filename_lower rest)"

text \<open>The second loop: \<open>keyword_count\<close> adds 1 for each keyword of the list found in the text.\<close>

definition keyword_count :: "string list \<Rightarrow> string \<Rightarrow> nat" where
  "keyword_count keywords text_lower =
     sum_list (map (\<lambda>keyword. 1) (filter (\<lambda>keyword. py_in keyword text_lower) keywords))"

fun check_content :: "string \<Rightarrow> (string \<times> string list) list \<Rightarrow> string option" where
  "check_content text_lower [] = None"
| "check_content text_lower ((category, keywords) # rest) =
     (if 2 \<le> keyword_count keywords text_lower then Some category
      else check_content text_lower rest)"

definition categorize_document :: "string \<Rightarrow> string \<Rightarrow> string" where
  "categorize_document filename text =
     (let filename_lower = lower filename; text_lower = lower text in
      case check_filename filename_lower document_categories of
        Some category \<Rightarrow> category
      | None \<Rightarrow>
          (case check_content text_lower document_categories of
             Some category \<Rightarrow> category
           | None \<Rightarrow> ''general''))"

text \<open>The loop of \<open>_categorize_query\<close>.\<close>

fun check_query :: "string \<Rightarrow> (string \<times> string list) list \<Rightarrow> string option" where
  "check_query query_lower [] = None"
| "check_query query_lower ((category, keywords) # rest) =
     (if list_ex (\<lambda>keyword. py_in keyword query_lower) keywords then Some category
      else check_query query_lower rest)"

definition categorize_query :: "string \<Rightarrow> string" where
  "categorize_query query =
     (let query_lower = lower query in
      case check_query query_lower query_categories of
        Some category \<Rightarrow> category
      | None \<Rightarrow> ''general'')"

text \<open>
  The categorisation in the words of the specification, where every occurrence of a
  keyword in the text is a hit, a repeated keyword counting each time.
\<close>

definition occurrences :: "string \<Rightarrow> string \<Rightarrow> nat" where
  "occurrences keyword text = length (filter (prefix keyword) (suffixes text))"

definition spec_keyword_hits :: "string list \<Rightarrow> string \<Rightarrow> nat" where
  "spec_keyword_hits keywords text = sum_list (map (\<lambda>keyword. occurrences keyword text) keywords)"

definition spec_categorize :: "string \<Rightarrow> string \<Rightarrow> string" where
  "spec_categorize filename text =
     (case find (\<lambda>(c, ks). list_ex (\<lambda>k. py_in k (lower filename)) ks) document_categories of
        Some (c, ks) \<Rightarrow> c
      | None \<Rightarrow>
          (case find (\<lambda>(c, ks). 2 \<le> spec_keyword_hits ks (lower text)) document_categories of
             Some (c, ks) \<Rightarrow> c
           | None \<Rightarrow> ''general''))"

section \<open>Confidence (qa\_service.py)\<close>

text \<open>
  A metadata value as the store keeps it: a string or an integer.  A metadata dictionary
  is an association list in insertion order.
\<close>

datatype mval = MStr string | MInt int

type_synonym metadata = "(string \<times> mval) list"

text \<open>One element of the list \<open>search\<close> returns (a dict with these four keys).\<close>

record search_result =
  sr_content :: string
  sr_metadata :: metadata
  sr_relevance :: rat
  sr_id :: "string option"

text \<open>Python's \<open>sum\<close> over a generator: a left-to-right loop from 0.\<close>

fun py_sum :: "rat \<Rightarrow> rat list \<Rightarrow> rat" where
  "py_sum acc [] = acc"
| "py_sum acc (x # xs) = py_sum (acc + x) xs"

definition calculate_confidence :: "search_result list \<Rightarrow> rat" where
  "calculate_confidence search_results =
     (if search_results = [] then 0
      else
        let top_results = take 3 search_results;
            avg_relevance = py_sum 0 (map sr_relevance top_results) / of_nat (length top_results);
            avg_relevance =
              (if 2 \<le> length (filter (\<lambda>r. 8 / 10 < sr_relevance r) top_results)
               then min (avg_relevance * (11 / 10)) 1 else avg_relevance)
        in py_round2 avg_relevance)"



section \<open>The index store (vector\_store.py)\<close>

text \<open>
  What the services read from outside the program: the interpreter's string hash, the
  clock, the file system, the standard library's parsers, the embedding distance of the
  search backend and the generative model.  Each is a field of the environment that a
  call receives.
\<close>

record env =
  hash :: "mval \<Rightarrow> int"
  timestamp :: string
  isoformat :: string
  now :: string
  guess_type :: "string \<Rightarrow> string option"
  fromisoformat :: "string \<Rightarrow> string option"
  file_stat :: "string \<Rightarrow> (int \<times> string) option"
  int_of_str :: "string \<Rightarrow> int option"
  distance :: "string \<Rightarrow> string \<Rightarrow> rat"
  generate_content :: "string \<Rightarrow> error + string"

text \<open>
  \<open>timestamp\<close> is \<open>str(datetime.now().timestamp())\<close>, \<open>isoformat\<close> is
  \<open>datetime.now().isoformat()\<close>, \<open>now\<close> is \<open>datetime.now()\<close> as a date value;
  \<open>file_stat name\<close> is the size and modification date of the file of that name in the
  upload directory, when it exists; \<open>int_of_str\<close> is \<open>int\<close> on a string and
  \<open>fromisoformat\<close> is \<open>datetime.fromisoformat\<close>, \<open>None\<close> where they raise.
\<close>

text \<open>\<open>DocumentChunk\<close> and \<open>DocumentInfo\<close> of schemas.py.\<close>

record document_chunk =
  content :: string
  metadata :: metadata
  chunk_id :: string

record document_info =
  doc_id :: string
  doc_name :: string
  doc_type :: string
  doc_size :: int
  doc_uploadDate :: string
  doc_status :: string
  doc_category :: "string option"
  doc_chunks :: nat

text \<open>
  The ChromaDB collection: a row per chunk id, in insertion order.  The backend is either
  unreachable, every call on it raising the given message, or holds its rows.  The
  \<open>collection\<close> field of the store object says whether the handle has been acquired.
\<close>

record row =
  row_id :: string
  row_document :: string
  row_metadata :: metadata

datatype backend = Down error | Up "row list"

record vector_store =
  collection :: bool
  backend :: backend

text \<open>What \<open>collection.query\<close> returns for the one query text.\<close>

record query_result =
  ids :: "string list option"
  documents :: "string list option"
  metadatas :: "metadata list option"
  distances :: "rat list option"

subsection \<open>The backend's primitives\<close>

text \<open>
  \<open>add\<close> refuses an empty batch and a batch with a repeated id, and leaves a row whose
  id is already stored as it is; \<open>query\<close> refuses a non-positive \<open>n_results\<close>, keeps
  the rows that satisfy the \<open>where\<close> clause and returns the nearest ones, nearest first,
  rows at equal distance in insertion order.
\<close>

definition collection_count :: "vector_store \<Rightarrow> error + nat" where
  "collection_count vs = (case backend vs of Down e \<Rightarrow> Inl e | Up rows \<Rightarrow> Inr (length rows))"

definition collection_get :: "vector_store \<Rightarrow> error + row list" where
  "collection_get vs = (case backend vs of Down e \<Rightarrow> Inl e | Up rows \<Rightarrow> Inr rows)"

definition collection_add :: "row list \<Rightarrow> vector_store \<Rightarrow> error + vector_store" where
  "collection_add new vs =
     (case backend vs of
        Down e \<Rightarrow> Inl e
      | Up rows \<Rightarrow>
          if new = [] then Inl ''Expected IDs to be a non-empty list''
          else if \<not> distinct (map row_id new) then Inl ''Expected IDs to be unique''
          else Inr (vs\<lparr>backend :=
                 Up (rows @ filter (\<lambda>r. row_id r \<notin> set (map row_id rows)) new)\<rparr>))"

definition collection_delete :: "string list \<Rightarrow> vector_store \<Rightarrow> error + vector_store" where
  "collection_delete del vs =
     (case backend vs of
        Down e \<Rightarrow> Inl e
      | Up rows \<Rightarrow> Inr (vs\<lparr>backend := Up (filter (\<lambda>r. row_id r \<notin> set del) rows)\<rparr>))"

definition collection_query ::
  "env \<Rightarrow> string \<Rightarrow> int \<Rightarrow> string option \<Rightarrow> vector_store \<Rightarrow> error + query_result" where
  "collection_query ev query n_results where_category vs =
     (case backend vs of
        Down e \<Rightarrow> Inl e
      | Up rows \<Rightarrow>
          if n_results \<le> 0 then Inl ''Number of requested results cannot be negative, or zero''
          else
            let candidates =
                  (case where_category of
                     None \<Rightarrow> rows
                   | Some c \<Rightarrow>
                       filter (\<lambda>r. map_of (row_metadata r) ''category'' = Some (MStr c)) rows);
                nearest =
                  take (nat n_results)
                    (sort_key (\<lambda>r. distance ev query (row_document r)) candidates)
            in Inr \<lparr>ids = Some (map row_id nearest),
                    documents = Some (map row_document nearest),
                    metadatas = Some (map row_metadata nearest),
                    distances = Some (map (\<lambda>r. distance ev query (row_document r)) nearest)\<rparr>)"

subsection \<open>The store's methods\<close>

definition initialize :: "vector_store \<Rightarrow> error + vector_store" where
  "initialize vs =
     (case backend vs of
        Down e \<Rightarrow> Inl (''Failed to initialize vector store: '' @ e)
      | Up rows \<Rightarrow> Inr (vs\<lparr>collection := True\<rparr>))"

text \<open>The opening \<open>if not self.collection: await self.initialize()\<close> of every method.\<close>

definition ensure_collection :: "vector_store \<Rightarrow> error + vector_store" where
  "ensure_collection vs = (if \<not> collection vs then initialize vs else Inr vs)"

text \<open>The loop of \<open>add_document\<close> over the chunks.\<close>

definition stamp_chunk :: "string \<Rightarrow> string \<Rightarrow> int \<Rightarrow> string \<Rightarrow> document_chunk \<Rightarrow> row" where
  "stamp_chunk document_id filename file_size processed_date chunk =
     \<lparr>row_id = chunk_id chunk,
      row_document = content chunk,
      row_metadata =
        AList.update ''uploadDate'' (MStr processed_date)
          (AList.update ''file_size'' (MInt file_size)
            (AList.update ''filename'' (MStr filename)
              (AList.update ''document_id'' (MStr document_id) (metadata chunk))))\<rparr>"

definition add_document ::
  "env \<Rightarrow> document_chunk list \<Rightarrow> string \<Rightarrow> int \<Rightarrow> vector_store \<Rightarrow>
     (error + string) \<times> vector_store" where
  "add_document ev chunks filename file_size vs =
     (case ensure_collection vs of
        Inl e \<Rightarrow> (Inl (''Failed to add document to vector store: '' @ e), vs)
      | Inr vs1 \<Rightarrow>
          let document_id =
                ''doc_'' @ str_int (hash ev (MStr filename)) @ ''_'' @ timestamp ev;
              processed_date = isoformat ev;
              rows = map (stamp_chunk document_id filename file_size processed_date) chunks
          in (case collection_add rows vs1 of
                Inl e \<Rightarrow> (Inl (''Failed to add document to vector store: '' @ e), vs1)
              | Inr vs2 \<Rightarrow> (Inr document_id, vs2)))"

text \<open>
  The loop of \<open>search\<close> over the returned documents, \<open>i\<close> the running index; an index
  past the end of a list raises.
\<close>

definition item :: "'a list \<Rightarrow> nat \<Rightarrow> error + 'a" where
  "item xs i = (if i < length xs then Inr (xs ! i) else Inl ''list index out of range'')"

fun format_results :: "query_result \<Rightarrow> nat \<Rightarrow> string list \<Rightarrow> error + search_result list" where
  "format_results results i [] = Inr []"
| "format_results results i (doc # rest) =
     (case (case metadatas results of None \<Rightarrow> Inr [] | Some ms \<Rightarrow> item ms i) of
        Inl e \<Rightarrow> Inl e
      | Inr meta \<Rightarrow>
          (case (case distances results of None \<Rightarrow> Inr 0 | Some ds \<Rightarrow> item ds i) of
             Inl e \<Rightarrow> Inl e
           | Inr dist_i \<Rightarrow>
               (case (case ids results of None \<Rightarrow> Inr None
                      | Some xs \<Rightarrow> map_sum id Some (item xs i)) of
                  Inl e \<Rightarrow> Inl e
                | Inr rid \<Rightarrow>
                    (case format_results results (Suc i) rest of
                       Inl e \<Rightarrow> Inl e
                     | Inr search_results \<Rightarrow>
                         Inr (\<lparr>sr_content = doc, sr_metadata = meta,
                               sr_relevance = 1 - dist_i, sr_id = rid\<rparr> # search_results)))))"

definition search ::
  "env \<Rightarrow> string \<Rightarrow> int \<Rightarrow> string option \<Rightarrow> vector_store \<Rightarrow>
     (error + search_result list) \<times> vector_store" where
  "search ev query top_k category_filter vs =
     (case ensure_collection vs of
        Inl e \<Rightarrow> (Inl (''Failed to search vector store: '' @ e), vs)
      | Inr vs1 \<Rightarrow>
          let where_clause =
                (case category_filter of
                   None \<Rightarrow> None
                 | Some c \<Rightarrow> if c = [] then None else Some c)
          in (case collection_query ev query top_k where_clause vs1 of
                Inl e \<Rightarrow> (Inl (''Failed to search vector store: '' @ e), vs1)
              | Inr results \<Rightarrow>
                  (case (case documents results of
                           None \<Rightarrow> Inr []
                         | Some docs \<Rightarrow> format_results results 0 docs) of
                     Inl e \<Rightarrow> (Inl (''Failed to search vector store: '' @ e), vs1)
                   | Inr search_results \<Rightarrow> (Inr search_results, vs1))))"

text \<open>Truth value of a metadata entry read with \<open>dict.get\<close>.\<close>

fun truthy :: "mval option \<Rightarrow> bool" where
  "truthy None = False"
| "truthy (Some (MStr s)) = (s \<noteq> [])"
| "truthy (Some (MInt n)) = (n \<noteq> 0)"

text \<open>\<open>s.replace(old, new)\<close> for a one-character \<open>old\<close>.\<close>

definition replace_char :: "char \<Rightarrow> string \<Rightarrow> string \<Rightarrow> string" where
  "replace_char old new s = concat (map (\<lambda>c. if c = old then new else [c]) s)"

text \<open>
  A value of the dictionary \<open>documents_map\<close> of \<open>list_documents\<close>, before
  \<open>DocumentInfo\<close> validates it.
\<close>

record doc_entry =
  e_id :: mval
  e_name :: mval
  e_type :: string
  e_size :: int
  e_uploadDate :: string
  e_category :: mval
  e_chunks :: nat

text \<open>The body of \<open>if document_id not in documents_map\<close>.\<close>

definition new_entry :: "env \<Rightarrow> metadata \<Rightarrow> mval \<Rightarrow> mval \<Rightarrow> error + doc_entry" where
  "new_entry ev meta filename document_id =
     (let file_size = (case map_of meta ''file_size'' of None \<Rightarrow> MInt 0 | Some v \<Rightarrow> v);
          upload_date_str = map_of meta ''uploadDate''
      in case
           (if truthy upload_date_str then
              (case upload_date_str of
                 Some (MStr s) \<Rightarrow>
                   (case fromisoformat ev (replace_char CHR ''Z'' ''+00:00'' s) of
                      Some d \<Rightarrow> Inr (file_size, d)
                    | None \<Rightarrow> Inr (file_size, now ev))
               | _ \<Rightarrow> Inr (file_size, now ev))
            else
              (case filename of
                 MInt n \<Rightarrow> Inl ''join() argument must be str''
               | MStr name \<Rightarrow>
                   (case file_stat ev name of
                      None \<Rightarrow> Inr (file_size, now ev)
                    | Some (st_size, st_mtime) \<Rightarrow>
                        Inr (if file_size = MInt 0 then MInt st_size else file_size, st_mtime))))
         of
           Inl e \<Rightarrow> Inl e
         | Inr (file_size, upload_date) \<Rightarrow>
             (case filename of
                MInt n \<Rightarrow> Inl ''expected str, not int''
              | MStr name \<Rightarrow>
                  (case (case file_size of
                           MInt n \<Rightarrow> Some n
                         | MStr s \<Rightarrow> int_of_str ev s) of
                     None \<Rightarrow> Inl ''invalid literal for int()''
                   | Some sz \<Rightarrow>
                       Inr \<lparr>e_id = document_id,
                            e_name = filename,
                            e_type =
                              (case guess_type ev name of
                                 None \<Rightarrow> ''application/octet-stream''
                               | Some t \<Rightarrow> if t = [] then ''application/octet-stream'' else t),
                            e_size = sz,
                            e_uploadDate = upload_date,
                            e_category =
                              (case map_of meta ''category'' of
                                 None \<Rightarrow> MStr ''general''
                               | Some c \<Rightarrow> c),
                            e_chunks = 0\<rparr>)))"

text \<open>The loop of \<open>list_documents\<close> over the stored metadata dictionaries.\<close>

fun group_documents ::
  "env \<Rightarrow> metadata list \<Rightarrow> (mval \<times> doc_entry) list \<Rightarrow> error + (mval \<times> doc_entry) list" where
  "group_documents ev [] documents_map = Inr documents_map"
| "group_documents ev (meta # rest) documents_map =
     (let filename = map_of meta ''filename'';
          document_id_meta = map_of meta ''document_id''
      in if \<not> truthy filename \<or> \<not> truthy document_id_meta
         then group_documents ev rest documents_map
         else
           (let document_id = the document_id_meta in
            case (case map_of documents_map document_id of
                    Some entry \<Rightarrow> Inr entry
                  | None \<Rightarrow> new_entry ev meta (the filename) document_id) of
              Inl e \<Rightarrow> Inl e
            | Inr entry \<Rightarrow>
                group_documents ev rest
                  (AList.update document_id (entry\<lparr>e_chunks := e_chunks entry + 1\<rparr>)
                     documents_map)))"

text \<open>\<open>DocumentInfo(**doc_info)\<close>: the string fields must hold strings.\<close>

definition validate_info :: "doc_entry \<Rightarrow> error + document_info" where
  "validate_info entry =
     (case (e_id entry, e_name entry, e_category entry) of
        (MStr i, MStr n, MStr c) \<Rightarrow>
          Inr \<lparr>doc_id = i, doc_name = n, doc_type = e_type entry, doc_size = e_size entry,
               doc_uploadDate = e_uploadDate entry, doc_status = ''processed'',
               doc_category = Some c, doc_chunks = e_chunks entry\<rparr>
      | _ \<Rightarrow> Inl ''validation error for DocumentInfo'')"

fun validate_all :: "doc_entry list \<Rightarrow> error + document_info list" where
  "validate_all [] = Inr []"
| "validate_all (entry # rest) =
     (case validate_info entry of
        Inl e \<Rightarrow> Inl e
      | Inr info \<Rightarrow>
          (case validate_all rest of Inl e \<Rightarrow> Inl e | Inr infos \<Rightarrow> Inr (info # infos)))"

definition list_documents ::
  "env \<Rightarrow> vector_store \<Rightarrow> (error + document_info list) \<times> vector_store" where
  "list_documents ev vs =
     (case ensure_collection vs of
        Inl e \<Rightarrow> (Inl (''Failed to list documents: '' @ e), vs)
      | Inr vs1 \<Rightarrow>
          (case collection_get vs1 of
             Inl e \<Rightarrow> (Inl (''Failed to list documents: '' @ e), vs1)
           | Inr rows \<Rightarrow>
               (case group_documents ev (map row_metadata rows) [] of
                  Inl e \<Rightarrow> (Inl (''Failed to list documents: '' @ e), vs1)
                | Inr documents_map \<Rightarrow>
                    (case validate_all (map snd documents_map) of
                       Inl e \<Rightarrow> (Inl (''Failed to list documents: '' @ e), vs1)
                     | Inr document_list \<Rightarrow> (Inr document_list, vs1)))))"

text \<open>
  \<open>delete_document\<close>: the rows to delete are those whose filename hashes to the
  requested identifier.
\<close>

definition belongs_to :: "env \<Rightarrow> string \<Rightarrow> row \<Rightarrow> bool" where
  "belongs_to ev document_id r =
     (''doc_'' @ str_int (hash ev (case map_of (row_metadata r) ''filename'' of
                                      None \<Rightarrow> MStr []
                                    | Some v \<Rightarrow> v)) = document_id)"

definition delete_document ::
  "env \<Rightarrow> string \<Rightarrow> vector_store \<Rightarrow> (error + unit) \<times> vector_store" where
  "delete_document ev document_id vs =
     (case ensure_collection vs of
        Inl e \<Rightarrow> (Inl (''Failed to delete document: '' @ e), vs)
      | Inr vs1 \<Rightarrow>
          (case collection_get vs1 of
             Inl e \<Rightarrow> (Inl (''Failed to delete document: '' @ e), vs1)
           | Inr rows \<Rightarrow>
               let chunk_ids_to_delete = map row_id (filter (belongs_to ev document_id) rows)
               in if chunk_ids_to_delete = [] then (Inr (), vs1)
                  else
                    (case collection_delete chunk_ids_to_delete vs1 of
                       Inl e \<Rightarrow> (Inl (''Failed to delete document: '' @ e), vs1)
                     | Inr vs2 \<Rightarrow> (Inr (), vs2))))"

text \<open>\<open>health_check\<close> returns its report in both branches.\<close>

definition health_check :: "vector_store \<Rightarrow> string \<times> vector_store" where
  "health_check vs =
     (case ensure_collection vs of
        Inl e \<Rightarrow> (''unhealthy - '' @ e, vs)
      | Inr vs1 \<Rightarrow>
          (case collection_count vs1 of
             Inl e \<Rightarrow> (''unhealthy - '' @ e, vs1)
           | Inr count \<Rightarrow> (''healthy - '' @ str_nat count @ '' documents indexed'', vs1)))"

section \<open>The question-answering service (qa\_service.py, main.py)\<close>

text \<open>\<open>SourceDocument\<close>, \<open>QueryResponse\<close> and \<open>QueryRequest\<close> of schemas.py.\<close>

record source_document =
  sd_document :: string
  sd_page :: "int option"
  sd_relevance :: rat
  sd_content :: string

record query_response =
  answer :: string
  sources :: "source_document list"
  category :: string
  confidence :: rat
  processing_time :: rat

record query_request =
  req_query :: string
  req_top_k :: "int option"
  req_category_filter :: "string option"

definition nl :: string where
  "nl = [CHR 0x0A]"

text \<open>\<open>str(v)\<close> of a metadata value inside an f-string.\<close>

fun py_str :: "mval \<Rightarrow> string" where
  "py_str (MStr s) = s"
| "py_str (MInt n) = str_int n"

text \<open>\<open>sep.join(parts)\<close>.\<close>

fun join :: "string \<Rightarrow> string list \<Rightarrow> string" where
  "join sep [] = []"
| "join sep [p] = p"
| "join sep (p # q # ps) = p @ sep @ join sep (q # ps)"

text \<open>The loop of \<open>_prepare_context\<close>; the first argument is the index \<open>i\<close>.\<close>

fun context_parts :: "nat \<Rightarrow> search_result list \<Rightarrow> string list" where
  "context_parts i [] = []"
| "context_parts i (result # rest) =
     (let filename = (case map_of (sr_metadata result) ''filename'' of
                        None \<Rightarrow> ''Unknown Document''
                      | Some v \<Rightarrow> py_str v)
      in (''[Source '' @ str_nat (i + 1) @ '': '' @ filename @ '']'' @ nl
            @ sr_content result @ nl) # context_parts (Suc i) rest)"

definition prepare_context :: "search_result list \<Rightarrow> string" where
  "prepare_context search_results = join nl (context_parts 0 (take 5 search_results))"

definition build_prompt :: "string \<Rightarrow> string \<Rightarrow> string" where
  "build_prompt query context =
     nl @ ''You are an HR Knowledge Assistant. Answer the following question based ONLY on the provided HR document context. '' @ nl
     @ nl
     @ ''Guidelines:'' @ nl
     @ ''- Provide accurate, helpful information based on the context'' @ nl
     @ ''- If the context doesn't contain enough information, say so clearly'' @ nl
     @ ''- Be specific about policies, procedures, and requirements'' @ nl
     @ ''- Use a professional but friendly tone'' @ nl
     @ ''- Include relevant details like timeframes, requirements, or steps'' @ nl
     @ ''- If multiple options exist, explain them clearly'' @ nl
     @ nl
     @ ''Context from HR Documents:'' @ nl
     @ context @ nl
     @ nl
     @ ''Question: '' @ query @ nl
     @ nl
     @ ''Answer:''"

text \<open>
  \<open>_generate_answer\<close> returns the text and the prompts it sent to the model; a failure
  of the model is caught here and becomes the returned text.
\<close>

definition generate_answer :: "env \<Rightarrow> string \<Rightarrow> string \<Rightarrow> string \<times> string list" where
  "generate_answer ev query context =
     (let prompt = build_prompt query context in
      case generate_content ev prompt of
        Inr text \<Rightarrow> (text, [prompt])
      | Inl e \<Rightarrow> (''I'm sorry, I encountered an error generating the response: '' @ e, [prompt]))"

text \<open>\<open>s.find(sub, start)\<close>, \<open>-1\<close> when absent, and the slice \<open>s[a:b]\<close>.\<close>

fun find_at :: "string \<Rightarrow> string \<Rightarrow> nat \<Rightarrow> int" where
  "find_at sub [] i = (if sub = [] then int i else - 1)"
| "find_at sub (c # s) i = (if prefix sub (c # s) then int i else find_at sub s (Suc i))"

definition py_find :: "string \<Rightarrow> string \<Rightarrow> nat \<Rightarrow> int" where
  "py_find s sub start = (if length s < start then - 1 else find_at sub (drop start s) start)"

definition py_slice :: "string \<Rightarrow> int \<Rightarrow> int \<Rightarrow> string" where
  "py_slice s a b =
     (let n = int (length s);
          clip = (\<lambda>i. if i < 0 then max 0 (n + i) else min i n);
          first = clip a; last = clip b
      in take (nat (last - first)) (drop (nat first) s))"

definition page_number :: "env \<Rightarrow> string \<Rightarrow> int option" where
  "page_number ev text =
     (if py_in ''[Page '' text then
        (let page_start = py_find text ''[Page '' 0 + 6;
             page_end = py_find text '']'' (nat page_start)
         in int_of_str ev (py_slice text page_start page_end))
      else None)"

text \<open>The loop of \<open>_prepare_sources\<close>; \<open>SourceDocument\<close> wants a string as document name.\<close>

fun source_documents :: "env \<Rightarrow> search_result list \<Rightarrow> error + source_document list" where
  "source_documents ev [] = Inr []"
| "source_documents ev (result # rest) =
     (let page_num = page_number ev (sr_content result);
          text = sr_content result
      in case (case map_of (sr_metadata result) ''filename'' of
                 None \<Rightarrow> Inr ''Unknown Document''
               | Some (MStr s) \<Rightarrow> Inr s
               | Some (MInt n) \<Rightarrow> Inl ''validation error for SourceDocument'') of
           Inl e \<Rightarrow> Inl e
         | Inr name \<Rightarrow>
             (case source_documents ev rest of
                Inl e \<Rightarrow> Inl e
              | Inr srcs \<Rightarrow>
                  Inr (\<lparr>sd_document = name, sd_page = page_num,
                        sd_relevance = sr_relevance result,
                        sd_content = (if 200 < length text then take 200 text @ ''...'' else text)\<rparr>
                       # srcs)))"

definition prepare_sources :: "env \<Rightarrow> search_result list \<Rightarrow> error + source_document list" where
  "prepare_sources ev search_results = source_documents ev (take 3 search_results)"

text \<open>
  \<open>answer_query\<close>, between two readings of the clock.  It returns the response, the
  prompts sent to the model and the store.
\<close>

definition error_response :: "rat \<Rightarrow> rat \<Rightarrow> error \<Rightarrow> query_response" where
  "error_response start_time end_time e =
     \<lparr>answer = ''I encountered an error while processing your question: '' @ e,
      sources = [], category = ''error'', confidence = 0,
      processing_time = end_time - start_time\<rparr>"

definition not_found_response :: "rat \<Rightarrow> rat \<Rightarrow> query_response" where
  "not_found_response start_time end_time =
     \<lparr>answer = ''I couldn't find relevant information in the HR documents to answer your question. Please try rephrasing your query or contact HR directly.'',
      sources = [], category = ''unknown'', confidence = 0,
      processing_time = end_time - start_time\<rparr>"

definition answer_query ::
  "env \<Rightarrow> rat \<Rightarrow> rat \<Rightarrow> string \<Rightarrow> int \<Rightarrow> vector_store \<Rightarrow>
     query_response \<times> string list \<times> vector_store" where
  "answer_query ev start_time end_time query top_k vs =
     (case search ev query top_k None vs of
        (Inl e, vs1) \<Rightarrow> (error_response start_time end_time e, [], vs1)
      | (Inr search_results, vs1) \<Rightarrow>
          if search_results = [] then (not_found_response start_time end_time, [], vs1)
          else
            (let context = prepare_context search_results;
                 (text, prompts) = generate_answer ev query context
             in (case prepare_sources ev search_results of
                   Inl e \<Rightarrow> (error_response start_time end_time e, prompts, vs1)
                 | Inr srcs \<Rightarrow>
                     (\<lparr>answer = text, sources = srcs, category = categorize_query query,
                       confidence = calculate_confidence search_results,
                       processing_time = end_time - start_time\<rparr>, prompts, vs1))))"

text \<open>
  The handler of \<open>POST /query\<close>: \<open>request.top_k or 5\<close>.  \<open>answer_query\<close> returns in every
  case, which leaves the handler's own \<open>except\<close> clause nothing to catch.
\<close>

definition query_documents ::
  "env \<Rightarrow> rat \<Rightarrow> rat \<Rightarrow> query_request \<Rightarrow> vector_store \<Rightarrow>
     query_response \<times> string list \<times> vector_store" where
  "query_documents ev start_time end_time request vs =
     answer_query ev start_time end_time (req_query request)
       (case req_top_k request of None \<Rightarrow> 5 | Some k \<Rightarrow> if k = 0 then 5 else k) vs"

section \<open>Chunking (document\_processor.py)\<close>

text \<open>
  The text splitter and MD5 belong to libraries; they are functions of their argument
  and are passed in.  The loop of \<open>_create_chunks\<close> reads the filename from the metadata
  on every round, and a missing key raises.
\<close>

fun convert_chunks ::
  "(string \<Rightarrow> string) \<Rightarrow> metadata \<Rightarrow> nat \<Rightarrow> string list \<Rightarrow> error + document_chunk list" where
  "convert_chunks md5 meta i [] = Inr []"
| "convert_chunks md5 meta i (page_content # rest) =
     (case map_of meta ''filename'' of
        None \<Rightarrow> Inl ''KeyError: filename''
      | Some filename \<Rightarrow>
          (let cid = md5 (py_str filename @ ''_'' @ str_nat i @ ''_'' @ take 100 page_content);
               chunk_metadata =
                 AList.update ''chunk_size'' (MInt (int (length page_content)))
                   (AList.update ''chunk_id'' (MStr cid)
                     (AList.update ''chunk_index'' (MInt (int i)) meta))
           in case convert_chunks md5 meta (Suc i) rest of
                Inl e \<Rightarrow> Inl e
              | Inr document_chunks \<Rightarrow>
                  Inr (\<lparr>content = page_content, metadata = chunk_metadata, chunk_id = cid\<rparr>
                       # document_chunks)))"

definition create_chunks ::
  "(string \<Rightarrow> string) \<Rightarrow> (string \<Rightarrow> string list) \<Rightarrow> string \<Rightarrow> metadata \<Rightarrow>
     error + document_chunk list" where
  "create_chunks md5 split_text text meta = convert_chunks md5 meta 0 (split_text text)"

text \<open>
  \<open>process_document\<close>: the text extraction and \<open>os.path.getsize\<close> read the file system
  and may raise.
\<close>

definition process_document ::
  "env \<Rightarrow> (string \<Rightarrow> string) \<Rightarrow> (string \<Rightarrow> string list) \<Rightarrow> (string \<Rightarrow> error + string) \<Rightarrow>
     (string \<Rightarrow> error + int) \<Rightarrow> string \<Rightarrow> string \<Rightarrow> error + document_chunk list" where
  "process_document ev md5 split_text extract_text getsize file_path filename =
     (case extract_text file_path of
        Inl e \<Rightarrow> Inl (''Error processing document '' @ filename @ '': '' @ e)
      | Inr text \<Rightarrow>
          (case getsize file_path of
             Inl e \<Rightarrow> Inl (''Error processing document '' @ filename @ '': '' @ e)
           | Inr file_size \<Rightarrow>
               (let meta = [(''filename'', MStr filename),
                            (''file_path'', MStr file_path),
                            (''processed_date'', MStr (isoformat ev)),
                            (''file_size'', MInt file_size),
                            (''category'', MStr (categorize_document filename text))]
                in (case create_chunks md5 split_text text meta of
                      Inl e \<Rightarrow> Inl (''Error processing document '' @ filename @ '': '' @ e)
                    | Inr chunks \<Rightarrow> Inr chunks))))"

section \<open>Notions used in the statements\<close>

text \<open>The search result built from a stored row, and the rows a category filter keeps.\<close>

definition result_of_row :: "env \<Rightarrow> string \<Rightarrow> row \<Rightarrow> search_result" where
  "result_of_row ev query r =
     \<lparr>sr_content = row_document r, sr_metadata = row_metadata r,
      sr_relevance = 1 - distance ev query (row_document r), sr_id = Some (row_id r)\<rparr>"


section \<open>Example data\<close>

text \<open>
  An environment whose model call fails, one with a backend that reports distances above
  1, and a store with a chunk of a benefits document and one of a code of conduct.
\<close>

definition example_env :: env where
  "example_env =
     \<lparr>hash = (\<lambda>v. 7), timestamp = ''1700000000.5'', isoformat = ''2023-11-14T22:13:20'',
      now = ''2024-01-01T00:00:00'', guess_type = (\<lambda>name. Some ''text/plain''),
      fromisoformat = Some, file_stat = (\<lambda>name. None), int_of_str = (\<lambda>s. None),
      distance = (\<lambda>q d. 1 / 4), generate_content = (\<lambda>prompt. Inl ''quota exceeded'')\<rparr>"


definition example_rows :: "row list" where
  "example_rows =
     [\<lparr>row_id = ''c0'', row_document = ''The 401k match is 4 percent.'',
       row_metadata = [(''filename'', MStr ''benefits.txt''), (''category'', MStr ''benefits''),
                       (''document_id'', MStr ''doc_1_1.0'')]\<rparr>,
      \<lparr>row_id = ''c1'', row_document = ''Report harassment to HR.'',
       row_metadata = [(''filename'', MStr ''code_of_conduct.txt''), (''category'', MStr ''conduct''),
                       (''document_id'', MStr ''doc_2_2.0'')]\<rparr>]"

definition example_store :: vector_store where
  "example_store = \<lparr>collection = True, backend = Up example_rows\<rparr>"

definition fresh_store :: vector_store where
  "fresh_store = \<lparr>collection = False, backend = Up []\<rparr>"

definition example_chunk :: document_chunk where
  "example_chunk =
     \<lparr>content = ''Employees accrue 15 days of vacation.'',
      metadata = [(''filename'', MStr ''handbook.txt''), (''category'', MStr ''general'')],
      chunk_id = ''9f2b''\<rparr>"

text \<open>A splitter into two overlapping pieces and a stand-in for the digest.\<close>

definition example_split :: "string \<Rightarrow> string list" where
  "example_split s = (if s = [] then [] else [take 4 s, drop 2 s])"

definition example_md5 :: "string \<Rightarrow> string" where
  "example_md5 s = ''#'' @ s"

section \<open>Auxiliary facts\<close>














lemma check_filename_find:
  "check_filename fl cs = map_option fst (find (\<lambda>(c, ks). \<exists>k\<in>set ks. py_in k fl) cs)"
  by (induction cs) (auto simp: list_ex_iff)

lemma check_query_find:
  "check_query ql cs = map_option fst (find (\<lambda>(c, ks). \<exists>k\<in>set ks. py_in k ql) cs)"
  by (induction cs) (auto simp: list_ex_iff)

lemma keyword_count_length: "keyword_count ks t = length (filter (\<lambda>k. py_in k t) ks)"
  by (simp add: keyword_count_def sum_list_triv)

lemma keyword_count_card:
  "distinct ks \<Longrightarrow> keyword_count ks t = card {k \<in> set ks. py_in k t}"
  by (simp add: keyword_count_length distinct_length_filter Int_def conj_commute)

lemma check_content_find:
  "\<forall>(c, ks)\<in>set cs. distinct ks \<Longrightarrow>
   check_content t cs = map_option fst (find (\<lambda>(c, ks). 2 \<le> card {k \<in> set ks. py_in k t}) cs)"
  by (induction cs) (auto simp: keyword_count_card)

lemma document_categories_distinct: "\<forall>(c, ks)\<in>set document_categories. distinct ks"
  by (simp add: document_categories_def)

lemma case_map_option_fst:
  "(case map_option fst x of Some c \<Rightarrow> f c | None \<Rightarrow> g) = (case x of Some (c, ks) \<Rightarrow> f c | None \<Rightarrow> g)"
  by (cases x) auto

lemma check_query_in: "check_query t cs = Some c \<Longrightarrow> c \<in> fst ` set cs"
  by (induction cs) (auto split: if_splits)

lemma two_hits_imp_hit:
  assumes "2 \<le> keyword_count (ks @ [x]) t"
  shows "list_ex (\<lambda>k. py_in k t) (ks @ [y])"
proof -
  have "1 \<le> length (filter (\<lambda>k. py_in k t) ks)"
    using assms by (simp add: keyword_count_length split: if_splits)
  then have "filter (\<lambda>k. py_in k t) ks \<noteq> []" by auto
  then show ?thesis by (auto simp: list_ex_iff filter_empty_conv)
qed

lemma check_query_None_content:
  assumes "list_all2 (\<lambda>d q. 2 \<le> keyword_count (snd d) t \<longrightarrow> list_ex (\<lambda>k. py_in k t) (snd q)) ds qs"
    and "check_query t qs = None"
  shows "check_content t ds = None"
  using assms
  by (induction ds qs rule: list_all2_induct) (auto split: if_splits)

lemma categories_related:
  "list_all2 (\<lambda>d q. 2 \<le> keyword_count (snd d) t \<longrightarrow> list_ex (\<lambda>k. py_in k t) (snd q))
     document_categories query_categories"
  unfolding document_categories_def query_categories_def
  using two_hits_imp_hit [of "[''benefit'', ''insurance'', ''health'', ''dental'', ''vision'', ''401k'']" "''retirement''" t "''retirement''"]
    two_hits_imp_hit [of "[''leave'', ''vacation'', ''pto'', ''sick'', ''maternity'', ''paternity'']" "''fmla''" t "''time off''"]
    two_hits_imp_hit [of "[''remote'', ''work from home'', ''wfh'', ''flexible'', ''schedule'']" "''attendance''" t "''attendance''"]
    two_hits_imp_hit [of "[''performance'', ''review'', ''evaluation'', ''appraisal'', ''feedback'']" "''goals''" t "''goals''"]
    two_hits_imp_hit [of "[''conduct'', ''behavior'', ''harassment'', ''discrimination'', ''ethics'']" "''compliance''" t "''report''"]
    two_hits_imp_hit [of "[''salary'', ''wage'', ''pay'', ''compensation'', ''bonus'', ''raise'']" "''promotion''" t "''promotion''"]
  by simp

lemma check_filename_empty: "check_filename [] document_categories = None"
  by (simp add: document_categories_def)

lemma general_not_query_category: "''general'' \<notin> fst ` set query_categories"
  by (simp add: query_categories_def)

lemma convert_chunks_ids:
  assumes "map_of meta ''filename'' = Some v"
  shows "map_sum id (map chunk_id) (convert_chunks md5 meta i pcs) =
           Inr (map (\<lambda>(j, c). md5 (py_str v @ ''_'' @ str_nat j @ ''_'' @ take 100 c))
                  (enumerate i pcs))"
proof (induction pcs arbitrary: i)
  case Nil
  then show ?case by simp
next
  case (Cons pc pcs)
  show ?case
    using Cons.IH [of "Suc i"] assms
    by (cases "convert_chunks md5 meta (Suc i) pcs") (simp_all add: Let_def)
qed

lemma of_char_digit_char: "d < 10 \<Longrightarrow> (of_char (digit_char d) :: nat) = 48 + d"
  by (simp add: digit_char_def)

lemma digit_char_not_underscore: "d < 10 \<Longrightarrow> digit_char d \<noteq> CHR ''_''"
proof
  assume d: "d < 10" and "digit_char d = CHR ''_''"
  then have "(of_char (digit_char d) :: nat) = of_char CHR ''_''" by simp
  then show False using d by (simp add: of_char_digit_char)
qed

lemma str_nat_no_underscore: "CHR ''_'' \<notin> set (str_nat n)"
proof (induction n rule: str_nat.induct)
  case (1 n)
  show ?case
  proof (cases "n < 10")
    case True
    then show ?thesis
      using digit_char_not_underscore [of n] by (subst str_nat.simps) auto
  next
    case False
    then show ?thesis
      using 1 digit_char_not_underscore [of "n mod 10"]
      by (subst str_nat.simps) auto
  qed
qed

lemma str_int_no_underscore: "CHR ''_'' \<notin> set (str_int i)"
  by (simp add: str_int_def str_nat_no_underscore)

lemma issued_id_never_matches: "\<not> belongs_to ev (''doc_'' @ str_int h @ ''_'' @ ts) r"
proof
  assume "belongs_to ev (''doc_'' @ str_int h @ ''_'' @ ts) r"
  then obtain x where "str_int x = str_int h @ ''_'' @ ts"
    by (auto simp: belongs_to_def)
  then have "CHR ''_'' \<in> set (str_int x)" by simp
  then show False using str_int_no_underscore by blast
qed

section \<open>Confidence of a result list\<close>






section \<open>Categorisation\<close>

text \<open>
  C7.  If some keyword of some category is a substring of the lower-cased filename,
  the document's category is the first such category, whatever the content.  Otherwise
  it is the first category, in the order of the table, of which at least two distinct
  keywords are substrings of the lower-cased text; a keyword that occurs several times
  counts once.  If there is no such category the result is general.
\<close>

theorem categorize_document_rule:
  "categorize_document filename text =
     (case find (\<lambda>(c, ks). \<exists>k\<in>set ks. py_in k (lower filename)) document_categories of
        Some (c, ks) \<Rightarrow> c
      | None \<Rightarrow>
          (case find (\<lambda>(c, ks). 2 \<le> card {k \<in> set ks. py_in k (lower text)})
                  document_categories of
             Some (c, ks) \<Rightarrow> c
           | None \<Rightarrow> ''general''))"
  unfolding categorize_document_def Let_def check_filename_find
    check_content_find [OF document_categories_distinct]
  by (simp add: case_map_option_fst option.case_distrib split: option.splits prod.splits)

text \<open>A filename hint, two distinct keywords in the content, and one keyword twice.\<close>

theorem categorize_document_rule_witness:
  "categorize_document ''PTO_policy.pdf'' ''Welcome'' = ''leave-policies'' \<and>
   categorize_document ''notes.txt'' ''Vacation and sick days'' = ''leave-policies'' \<and>
   categorize_document ''notes.txt'' ''vacation vacation'' = ''general''"
  unfolding categorize_document_rule by code_simp

text \<open>
  Counting every occurrence, as the claim words it, the text below reaches two hits for
  the leave policies; the service finds one keyword and answers general.
\<close>

theorem categorize_document_counterexample:
  "categorize_document [] ''vacation vacation'' = ''general'' \<and>
   spec_categorize [] ''vacation vacation'' = ''leave-policies''"
  by code_simp

text \<open>
  C3.  A query is categorised by a function of its own: the result is the first
  category, in the same order, of which at least one query keyword is a substring of
  the lower-cased query, and general when there is none.  It is not the content scan of
  the documents, which wants two keywords and has two other keywords in its table; the
  two agree in that a text the query categoriser calls general is general as document
  content with an empty filename as well.
\<close>

theorem categorize_query_rule:
  "categorize_query query =
     (case find (\<lambda>(c, ks). \<exists>k\<in>set ks. py_in k (lower query)) query_categories of
        Some (c, ks) \<Rightarrow> c
      | None \<Rightarrow> ''general'') \<and>
   (categorize_query query = ''general'' \<longrightarrow> categorize_document [] query = ''general'')"
proof
  show "categorize_query query =
     (case find (\<lambda>(c, ks). \<exists>k\<in>set ks. py_in k (lower query)) query_categories of
        Some (c, ks) \<Rightarrow> c
      | None \<Rightarrow> ''general'')"
    unfolding categorize_query_def Let_def check_query_find
    by (simp split: option.splits prod.splits)
next
  show "categorize_query query = ''general'' \<longrightarrow> categorize_document [] query = ''general''"
  proof
    assume g: "categorize_query query = ''general''"
    have "check_query (lower query) query_categories = None"
    proof (cases "check_query (lower query) query_categories")
      case None
      then show ?thesis .
    next
      case (Some c)
      then have "c \<in> fst ` set query_categories" by (rule check_query_in)
      moreover have "c = ''general''" using g Some by (simp add: categorize_query_def)
      ultimately show ?thesis using general_not_query_category by simp
    qed
    then have "check_content (lower query) document_categories = None"
      using check_query_None_content [OF categories_related] by blast
    then show "categorize_document [] query = ''general''"
      by (simp add: categorize_document_def lower_def check_filename_empty)
  qed
qed

theorem categorize_query_rule_witness:
  "categorize_query ''What is on the agenda?'' = ''general'' \<and>
   categorize_document [] ''What is on the agenda?'' = ''general''"
proof -
  have "(case find (\<lambda>(c, ks). \<exists>k\<in>set ks. py_in k (lower ''What is on the agenda?'')) query_categories of
        Some (c, ks) \<Rightarrow> c
      | None \<Rightarrow> ''general'') = ''general''"
    by code_simp
  then show ?thesis
    using categorize_query_rule [of "''What is on the agenda?''"] by simp
qed

text \<open>One keyword is enough for a query and not for a document.\<close>

theorem categorize_query_counterexample:
  "categorize_query ''vacation'' = ''leave-policies'' \<and>
   categorize_document [] ''vacation'' = ''general''"
  by code_simp

section \<open>Answering a query\<close>

text \<open>
  C8.  When the search for a query returns no result, \<open>answer_query\<close> returns the
  fixed answer that no relevant information was found, with category unknown, confidence
  0 and no sources, and sends no prompt to the generative model.
\<close>

theorem answer_query_no_results:
  "fst (search ev query top_k None vs) = Inr [] \<Longrightarrow>
   fst (answer_query ev start_time end_time query top_k vs) =
     \<lparr>answer = ''I couldn't find relevant information in the HR documents to answer your question. Please try rephrasing your query or contact HR directly.'',
      sources = [], category = ''unknown'', confidence = 0,
      processing_time = end_time - start_time\<rparr> \<and>
   fst (snd (answer_query ev start_time end_time query top_k vs)) = []"
  by (cases "search ev query top_k None vs") (simp add: answer_query_def not_found_response_def)

theorem answer_query_no_results_witness:
  "fst (search example_env ''What is the PTO policy?'' 5 None fresh_store) = Inr [] \<and>
   fst (answer_query example_env 0 1 ''What is the PTO policy?'' 5 fresh_store) =
     \<lparr>answer = ''I couldn't find relevant information in the HR documents to answer your question. Please try rephrasing your query or contact HR directly.'',
      sources = [], category = ''unknown'', confidence = 0,
      processing_time = 1 - 0\<rparr> \<and>
   fst (snd (answer_query example_env 0 1 ''What is the PTO policy?'' 5 fresh_store)) = []"
proof -
  have h: "fst (search example_env ''What is the PTO policy?'' 5 None fresh_store) = Inr []"
    by code_simp
  show ?thesis
    using h answer_query_no_results [OF h, of 0 1] by simp
qed

section \<open>Health of the store\<close>

text \<open>
  C10.  \<open>health_check\<close> returns a string for every state of the store: on a reachable
  backend the string healthy with the number of indexed chunks, and on a failing backend
  a string that begins with unhealthy and ends with the description of the failure.
\<close>

theorem health_check_reports:
  "(backend vs = Up rows \<longrightarrow>
      fst (health_check vs) = ''healthy - '' @ str_nat (length rows) @ '' documents indexed'') \<and>
   (backend vs = Down e \<longrightarrow>
      prefix ''unhealthy - '' (fst (health_check vs)) \<and> suffix e (fst (health_check vs)))"
  by (auto simp: health_check_def ensure_collection_def initialize_def collection_count_def
      suffix_def split: sum.splits)

theorem health_check_reports_witness:
  "fst (health_check example_store) = ''healthy - 2 documents indexed'' \<and>
   prefix ''unhealthy - '' (fst (health_check \<lparr>collection = False, backend = Down ''disk full''\<rparr>)) \<and>
   suffix ''disk full'' (fst (health_check \<lparr>collection = False, backend = Down ''disk full''\<rparr>))"
proof -
  have u: "backend example_store = Up example_rows" by (simp add: example_store_def)
  have l: "''healthy - '' @ str_nat (length example_rows) @ '' documents indexed'' = ''healthy - 2 documents indexed''"
    by code_simp
  have d: "backend \<lparr>collection = False, backend = Down ''disk full''\<rparr> = Down ''disk full''" by simp
  show ?thesis
    using health_check_reports [of example_store example_rows "''x''"]
      health_check_reports [of "\<lparr>collection = False, backend = Down ''disk full''\<rparr>" "[]" "''disk full''"]
      u l d by simp
qed

section \<open>Chunk identifiers\<close>

text \<open>
  C9.  Two runs of the chunking pipeline on the same file under the same filename,
  at different times, produce the same sequence of chunk identifiers (or fail alike).
  The identifier of the chunk at the 0-based position \<open>i\<close> is the digest of the
  filename, \<open>i\<close> and the first 100 characters of the chunk, whatever else the metadata
  holds.
\<close>

theorem chunk_ids_deterministic:
  "map_sum id (map chunk_id)
     (process_document ev1 md5 split_text extract_text getsize file_path filename) =
   map_sum id (map chunk_id)
     (process_document ev2 md5 split_text extract_text getsize file_path filename) \<and>
   (map_of meta ''filename'' = Some (MStr filename) \<longrightarrow>
      map_sum id (map chunk_id) (create_chunks md5 split_text body meta) =
        Inr (map (\<lambda>(i, c). md5 (filename @ ''_'' @ str_nat i @ ''_'' @ take 100 c))
               (enumerate 0 (split_text body))))"
proof
  have ids: "map_sum id (map chunk_id) (create_chunks md5 split_text body
        [(''filename'', MStr filename), (''file_path'', MStr file_path),
         (''processed_date'', MStr d), (''file_size'', MInt n),
         (''category'', MStr (categorize_document filename body))]) =
      Inr (map (\<lambda>(i, c). md5 (filename @ ''_'' @ str_nat i @ ''_'' @ take 100 c))
               (enumerate 0 (split_text body)))" for body d n
    by (simp add: create_chunks_def convert_chunks_ids [of _ "MStr filename"])
  show "map_sum id (map chunk_id)
     (process_document ev1 md5 split_text extract_text getsize file_path filename) =
   map_sum id (map chunk_id)
     (process_document ev2 md5 split_text extract_text getsize file_path filename)"
  proof (cases "extract_text file_path")
    case (Inl e)
    then show ?thesis by (simp add: process_document_def)
  next
    case t: (Inr body)
    show ?thesis
    proof (cases "getsize file_path")
      case (Inl e)
      then show ?thesis using t by (simp add: process_document_def)
    next
      case (Inr n)
      show ?thesis
        using ids [of body "isoformat ev1" n] ids [of body "isoformat ev2" n] t Inr
        by (auto simp: process_document_def Let_def split: sum.splits)
    qed
  qed
next
  show "map_of meta ''filename'' = Some (MStr filename) \<longrightarrow>
      map_sum id (map chunk_id) (create_chunks md5 split_text body meta) =
        Inr (map (\<lambda>(i, c). md5 (filename @ ''_'' @ str_nat i @ ''_'' @ take 100 c))
               (enumerate 0 (split_text body)))"
    using convert_chunks_ids [of meta "MStr filename" md5 0 "split_text body"]
    by (simp add: create_chunks_def)
qed

theorem chunk_ids_deterministic_witness:
  "map_sum id (map chunk_id)
     (create_chunks example_md5 example_split ''abcdef'' [(''filename'', MStr ''a.txt'')]) =
   Inr [''#a.txt_0_abcd'', ''#a.txt_1_cdef'']"
proof -
  have m: "map_of [(''filename'', MStr ''a.txt'')] ''filename'' = Some (MStr ''a.txt'')"
    by simp
  have r: "map (\<lambda>(i, c). example_md5 (''a.txt'' @ ''_'' @ str_nat i @ ''_'' @ take 100 c))
             (enumerate 0 (example_split ''abcdef'')) = [''#a.txt_0_abcd'', ''#a.txt_1_cdef'']"
    by code_simp
  show ?thesis
    using chunk_ids_deterministic [of _ example_md5 example_split _ _ _ "''a.txt''" _
        "[(''filename'', MStr ''a.txt'')]" "''abcdef''"] m r
    by simp
qed

section \<open>Failures while answering\<close>

text \<open>
  C2.  \<open>answer_query\<close> returns a response in every case.  When the search returned
  results and the generative model fails, the answer is the apology of
  \<open>_generate_answer\<close> followed by the description of the failure, and the sources, the
  category and the confidence are those computed from the query and the results, as
  after a successful generation.  The response with category error, confidence 0 and no
  sources is the one returned when the search, or the preparation of the sources, fails.
\<close>

theorem answer_query_failures:
  "(search ev query top_k None vs = (Inr rs, vs1) \<and> rs \<noteq> [] \<and>
    generate_content ev (build_prompt query (prepare_context rs)) = Inl e
    \<longrightarrow> fst (answer_query ev start_time end_time query top_k vs) =
           (case prepare_sources ev rs of
              Inr srcs \<Rightarrow>
                \<lparr>answer = ''I'm sorry, I encountered an error generating the response: '' @ e,
                 sources = srcs, category = categorize_query query,
                 confidence = calculate_confidence rs,
                 processing_time = end_time - start_time\<rparr>
            | Inl e' \<Rightarrow>
                \<lparr>answer = ''I encountered an error while processing your question: '' @ e',
                 sources = [], category = ''error'', confidence = 0,
                 processing_time = end_time - start_time\<rparr>)) \<and>
   (fst (search ev query top_k None vs) = Inl e
    \<longrightarrow> fst (answer_query ev start_time end_time query top_k vs) =
           \<lparr>answer = ''I encountered an error while processing your question: '' @ e,
            sources = [], category = ''error'', confidence = 0,
            processing_time = end_time - start_time\<rparr>)"
proof (intro conjI impI)
  assume "search ev query top_k None vs = (Inr rs, vs1) \<and> rs \<noteq> [] \<and>
    generate_content ev (build_prompt query (prepare_context rs)) = Inl e"
  then show "fst (answer_query ev start_time end_time query top_k vs) =
           (case prepare_sources ev rs of
              Inr srcs \<Rightarrow>
                \<lparr>answer = ''I'm sorry, I encountered an error generating the response: '' @ e,
                 sources = srcs, category = categorize_query query,
                 confidence = calculate_confidence rs,
                 processing_time = end_time - start_time\<rparr>
            | Inl e' \<Rightarrow>
                \<lparr>answer = ''I encountered an error while processing your question: '' @ e',
                 sources = [], category = ''error'', confidence = 0,
                 processing_time = end_time - start_time\<rparr>)"
    by (simp add: answer_query_def generate_answer_def error_response_def Let_def
        split: sum.splits)
next
  assume "fst (search ev query top_k None vs) = Inl e"
  then show "fst (answer_query ev start_time end_time query top_k vs) =
           \<lparr>answer = ''I encountered an error while processing your question: '' @ e,
            sources = [], category = ''error'', confidence = 0,
            processing_time = end_time - start_time\<rparr>"
    by (cases "search ev query top_k None vs") (simp add: answer_query_def error_response_def)
qed

theorem answer_query_failures_witness:
  "answer (fst (answer_query example_env 0 1 ''How much vacation?'' 5 example_store)) =
     ''I'm sorry, I encountered an error generating the response: quota exceeded'' \<and>
   category (fst (answer_query example_env 0 1 ''How much vacation?'' 5
                    \<lparr>collection = True, backend = Down ''disk full''\<rparr>)) = ''error''"
proof -
  define rs where "rs = map (result_of_row example_env ''How much vacation?'') example_rows"
  have s: "search example_env ''How much vacation?'' 5 None example_store = (Inr rs, example_store)"
    unfolding rs_def by code_simp
  have n: "rs \<noteq> []" unfolding rs_def by (simp add: example_rows_def)
  have g: "generate_content example_env (build_prompt ''How much vacation?'' (prepare_context rs))
             = Inl ''quota exceeded''"
    by (simp add: example_env_def)
  have "prepare_sources example_env rs = Inr (projr (prepare_sources example_env rs))"
    unfolding rs_def by code_simp
  then obtain srcs where p: "prepare_sources example_env rs = Inr srcs" by blast
  have d: "fst (search example_env ''How much vacation?'' 5 None
                  \<lparr>collection = True, backend = Down ''disk full''\<rparr>)
             = Inl ''Failed to search vector store: disk full''"
    by code_simp
  show ?thesis
    using answer_query_failures [of example_env "''How much vacation?''" 5 example_store rs
        example_store "''quota exceeded''" 0 1]
      answer_query_failures [of example_env "''How much vacation?''" 5
        "\<lparr>collection = True, backend = Down ''disk full''\<rparr>" rs
        example_store "''Failed to search vector store: disk full''" 0 1]
      s n g d
    by (simp add: p)
qed

text \<open>
  The model fails on the prompt and the response is not the error response: it has the
  category of the query, the confidence of the results and two sources.
\<close>

theorem answer_query_generation_failure_counterexample:
  "generate_content example_env
     (build_prompt ''How much vacation?''
        (prepare_context (projr (fst (search example_env ''How much vacation?'' 5 None example_store)))))
     = Inl ''quota exceeded'' \<and>
   category (fst (answer_query example_env 0 1 ''How much vacation?'' 5 example_store)) = ''leave-policies'' \<and>
   confidence (fst (answer_query example_env 0 1 ''How much vacation?'' 5 example_store)) = 3 / 4 \<and>
   map sd_document (sources (fst (answer_query example_env 0 1 ''How much vacation?'' 5 example_store)))
     = [''benefits.txt'', ''code_of_conduct.txt'']"
  by code_simp

section \<open>The category filter of a request\<close>

text \<open>
  C4.  A request with the category filter benefits on the example store: the sources
  of the response include the chunk of the code of conduct, of category conduct, since
  the handler calls \<open>answer_query\<close> without the filter and \<open>answer_query\<close> searches
  without one; the same search with the filter returns the benefits chunk alone.
\<close>

theorem query_documents_drops_category_filter:
  "map sd_document (sources (fst (query_documents example_env 0 1
       \<lparr>req_query = ''How much is the 401k match?'', req_top_k = Some 5,
        req_category_filter = Some ''benefits''\<rparr> example_store)))
     = [''benefits.txt'', ''code_of_conduct.txt''] \<and>
   map_sum id (map (\<lambda>r. map_of (sr_metadata r) ''filename''))
     (fst (search example_env ''How much is the 401k match?'' 5 (Some ''benefits'') example_store))
     = Inr [Some (MStr ''benefits.txt'')]"
  by code_simp

section \<open>Deleting a document\<close>

text \<open>
  C1.  Deleting by an identifier of the form that \<open>add_document\<close> issues, the text
  doc, a hash and a timestamp joined by underscores, leaves the backend as it was,
  since \<open>delete_document\<close> compares the identifier with the text doc and a hash alone.
  On a fresh store: a document is added, deleted by the identifier returned, and is
  still listed and still found by a search.
\<close>

theorem delete_document_misses_issued_id:
  "backend (snd (delete_document ev (''doc_'' @ str_int h @ ''_'' @ ts) vs)) = backend vs \<and>
   fst (add_document example_env [example_chunk] ''handbook.txt'' 38 fresh_store)
     = Inr ''doc_7_1700000000.5'' \<and>
   fst (delete_document example_env ''doc_7_1700000000.5''
          (snd (add_document example_env [example_chunk] ''handbook.txt'' 38 fresh_store)))
     = Inr () \<and>
   map_sum id (map doc_id)
     (fst (list_documents example_env
        (snd (delete_document example_env ''doc_7_1700000000.5''
           (snd (add_document example_env [example_chunk] ''handbook.txt'' 38 fresh_store))))))
     = Inr [''doc_7_1700000000.5''] \<and>
   map_sum id (map (\<lambda>r. map_of (sr_metadata r) ''document_id''))
     (fst (search example_env ''vacation'' 5 None
        (snd (delete_document example_env ''doc_7_1700000000.5''
           (snd (add_document example_env [example_chunk] ''handbook.txt'' 38 fresh_store))))))
     = Inr [Some (MStr ''doc_7_1700000000.5'')]"
proof -
  define issued where "issued = ''doc_'' @ str_int h @ ''_'' @ ts"
  have f: "filter (belongs_to ev issued) rows = []" for rows
    unfolding issued_def filter_empty_conv using issued_id_never_matches by blast
  have "backend (snd (delete_document ev issued vs)) = backend vs"
    by (cases "backend vs")
      (auto simp: delete_document_def ensure_collection_def initialize_def collection_get_def
        f Let_def split: sum.splits)
  then have g: "backend (snd (delete_document ev (''doc_'' @ str_int h @ ''_'' @ ts) vs)) = backend vs"
    by (simp only: issued_def)
  have c1: "fst (add_document example_env [example_chunk] ''handbook.txt'' 38 fresh_store)
     = Inr ''doc_7_1700000000.5''" by code_simp
  have c2: "fst (delete_document example_env ''doc_7_1700000000.5''
          (snd (add_document example_env [example_chunk] ''handbook.txt'' 38 fresh_store)))
     = Inr ()" by code_simp
  have c3: "map_sum id (map doc_id)
     (fst (list_documents example_env
        (snd (delete_document example_env ''doc_7_1700000000.5''
           (snd (add_document example_env [example_chunk] ''handbook.txt'' 38 fresh_store))))))
     = Inr [''doc_7_1700000000.5'']" by code_simp
  have c4: "map_sum id (map (\<lambda>r. map_of (sr_metadata r) ''document_id''))
     (fst (search example_env ''vacation'' 5 None
        (snd (delete_document example_env ''doc_7_1700000000.5''
           (snd (add_document example_env [example_chunk] ''handbook.txt'' 38 fresh_store))))))
     = Inr [Some (MStr ''doc_7_1700000000.5'')]" by code_simp
  show ?thesis using g c1 c2 c3 c4 by blast
qed

end
